theory Spec2Isabelle
  imports Main "HOL-Library.Sublist"
begin

section \<open>Strings and lexical paths (package strings, package path/filepath on Unix)\<close>

text \<open>
  A Go string is a sequence of bytes; \<^typ>\<open>string\<close> (a list of 8-bit characters) is
  the same thing. The functions of this section are the library functions that
  \<^verbatim>\<open>main.go\<close> calls, written after their documented behaviour on Unix
  (separator \<^verbatim>\<open>/\<close>).
\<close>

text \<open>\<^verbatim>\<open>strings.HasPrefix(s, prefix)\<close> and \<^verbatim>\<open>strings.TrimPrefix(s, prefix)\<close>.\<close>

definition HasPrefix :: "string \<Rightarrow> string \<Rightarrow> bool" where
  "HasPrefix s pre = (take (length pre) s = pre)"

definition TrimPrefix :: "string \<Rightarrow> string \<Rightarrow> string" where
  "TrimPrefix s pre = (if HasPrefix s pre then drop (length pre) s else s)"

text \<open>
  \<^verbatim>\<open>strings.Split(s, "/")\<close>: the elements between the separators; a string without
  separator is one element, so the result is never empty.
\<close>

fun split_slash :: "string \<Rightarrow> string list" where
  "split_slash [] = [[]]"
| "split_slash (c # cs) =
     (if c = CHR ''/'' then [] # split_slash cs
      else (c # hd (split_slash cs)) # tl (split_slash cs))"

text \<open>\<^verbatim>\<open>strings.Join(elems, "/")\<close>.\<close>

fun join_slash :: "string list \<Rightarrow> string" where
  "join_slash [] = []"
| "join_slash [e] = e"
| "join_slash (e # es) = e @ CHR ''/'' # join_slash es"

text \<open>
  \<^verbatim>\<open>filepath.Clean\<close> works through the path element by element with an output
  buffer. One step of its loop, on the element \<open>e\<close> and the elements \<open>out\<close> written so
  far:
  \<^item> an empty element (two separators in a row, or one at either end) and \<^verbatim>\<open>.\<close> are
    dropped;
  \<^item> \<^verbatim>\<open>..\<close> removes the last element written when there is one that is not itself
    \<^verbatim>\<open>..\<close> (the buffer is longer than its \<^verbatim>\<open>dotdot\<close> mark); otherwise it is written
    when the path is not rooted, and dropped when it is;
  \<^item> any other element is written.
\<close>

definition clean_step :: "bool \<Rightarrow> string list \<Rightarrow> string \<Rightarrow> string list" where
  "clean_step rooted out e =
     (if e = [] \<or> e = ''.'' then out
      else if e = ''..'' then
        (if out \<noteq> [] \<and> last out \<noteq> ''..'' then butlast out
         else if rooted then out
         else out @ [''..''])
      else out @ [e])"

text \<open>\<^verbatim>\<open>filepath.IsAbs\<close> on Unix: the path begins with the separator.\<close>

definition IsAbs :: "string \<Rightarrow> bool" where
  "IsAbs path = (path \<noteq> [] \<and> hd path = CHR ''/'')"

text \<open>The elements \<^verbatim>\<open>Clean\<close> has in its buffer when the loop ends.\<close>

definition clean_elems :: "string \<Rightarrow> string list" where
  "clean_elems path = foldl (clean_step (IsAbs path)) [] (split_slash path)"

text \<open>
  \<^verbatim>\<open>filepath.Clean(path)\<close>: the empty path and an empty result are \<^verbatim>\<open>.\<close>; a rooted
  path keeps its leading separator.
\<close>

definition Clean :: "string \<Rightarrow> string" where
  "Clean path =
     (if path = [] then ''.''
      else if IsAbs path then CHR ''/'' # join_slash (clean_elems path)
      else if clean_elems path = [] then ''.''
      else join_slash (clean_elems path))"

text \<open>
  \<^verbatim>\<open>filepath.Join(a, b)\<close>: the non-empty arguments from the first one on, joined with
  the separator and cleaned; the empty string when both are empty.
\<close>

definition Join :: "string \<Rightarrow> string \<Rightarrow> string" where
  "Join a b =
     (if a \<noteq> [] then Clean (a @ CHR ''/'' # b)
      else if b \<noteq> [] then Clean b
      else [])"

section \<open>\<^verbatim>\<open>fmt.Sprintf\<close> called with a format and no operands\<close>

text \<open>
  \<^verbatim>\<open>abs\<close> passes the cleaned path to \<^verbatim>\<open>fmt.Sprintf\<close> as the format string, with no
  operand. The formatter copies the format up to each \<^verbatim>\<open>%\<close> and then reads a
  directive: flags, an argument index \<^verbatim>\<open>[n]\<close>, a width, a precision, a second index,
  and the verb. With no operand to print, \<^verbatim>\<open>%%\<close> writes a percent sign and every other
  verb writes an error text in place of the operand. The definitions follow
  \<^verbatim>\<open>doPrintf\<close> of package \<^verbatim>\<open>fmt\<close> with an empty operand list.
\<close>

definition isFlag :: "char \<Rightarrow> bool" where
  "isFlag c = (c \<in> set ''#0+- '')"

definition isDigit :: "char \<Rightarrow> bool" where
  "isDigit c = (c \<in> set ''0123456789'')"

definition digitVal :: "char \<Rightarrow> nat" where
  "digitVal c = of_char c - 48"

text \<open>
  \<^verbatim>\<open>parsenum\<close> on the segment it is given: whether a number was read, and the part
  of the segment after it. A number that grew beyond \<open>10\<^sup>6\<close> before a further digit
  gives up and skips the whole segment.
\<close>

fun parsenum_loop :: "nat \<Rightarrow> bool \<Rightarrow> string \<Rightarrow> bool \<times> string" where
  "parsenum_loop num isnum [] = (isnum, [])"
| "parsenum_loop num isnum (c # cs) =
     (if isDigit c then
        (if 1000000 < num then (False, [])
         else parsenum_loop (num * 10 + digitVal c) True cs)
      else (isnum, c # cs))"

definition parsenum :: "string \<Rightarrow> bool \<times> string" where
  "parsenum seg = parsenum_loop 0 False seg"

text \<open>
  \<^verbatim>\<open>parseArgNumber\<close> on a format that begins with \<^verbatim>\<open>[\<close>: the number of bytes to
  skip and whether \<^verbatim>\<open>[n]\<close> was well formed.
\<close>

definition parseArgNumber :: "string \<Rightarrow> nat \<times> bool" where
  "parseArgNumber fmt =
     (if length fmt < 3 then (1, False)
      else
        (let inner = takeWhile (\<lambda>c. c \<noteq> CHR '']'') (tl fmt) in
         if length inner = length (tl fmt) then (1, False)
         else
           (case parsenum inner of
              (ok, rest) \<Rightarrow> (length inner + 2, ok \<and> rest = []))))"

text \<open>
  \<^verbatim>\<open>argNumber\<close> with no operands: no index is ever in range, so a bracket always
  clears \<^verbatim>\<open>goodArgNum\<close>. The result is \<^verbatim>\<open>goodArgNum\<close>, \<^verbatim>\<open>found\<close> and the unread
  format.
\<close>

definition argNumber :: "bool \<Rightarrow> string \<Rightarrow> bool \<times> bool \<times> string" where
  "argNumber good fmt =
     (if fmt = [] \<or> hd fmt \<noteq> CHR ''['' then (good, False, fmt)
      else
        (case parseArgNumber fmt of
           (wid, ok) \<Rightarrow> (False, ok, drop wid fmt)))"

text \<open>
  The verb is one rune. \<^verbatim>\<open>utf8.DecodeRuneInString\<close> reads a well-formed UTF-8
  sequence of up to four bytes; anything else is one byte, decoded as the replacement
  character U+FFFD. The verb is written back in UTF-8.
\<close>

definition RuneError :: string where
  "RuneError = [char_of (239::nat), char_of (191::nat), char_of (189::nat)]"

definition decodeRune :: "string \<Rightarrow> string \<times> string" where
  "decodeRune fmt =
     (case fmt of
        [] \<Rightarrow> ([], [])
      | c # cs \<Rightarrow>
          (let b = (of_char c :: nat) in
           if b < 128 then ([c], cs)
           else
             (let n = (if 194 \<le> b \<and> b \<le> 223 then 1
                       else if 224 \<le> b \<and> b \<le> 239 then 2
                       else if 240 \<le> b \<and> b \<le> 244 then 3
                       else 0);
                  lo = (if b = 224 then 160 else if b = 240 then 144 else 128);
                  hi = (if b = 237 then 159 else if b = 244 then 143 else 191);
                  more = map (of_char :: char \<Rightarrow> nat) (take n cs)
              in if n \<noteq> 0 \<and> length more = n \<and> lo \<le> hd more \<and> hd more \<le> hi
                    \<and> list_all (\<lambda>x. 128 \<le> x \<and> x \<le> 191) (tl more)
                 then (c # take n cs, drop n cs)
                 else (RuneError, cs))))"

text \<open>
  One directive, read from the format after its \<^verbatim>\<open>%\<close>: what is written and the
  unread format. A precision is read only when something follows its dot
  (\<^verbatim>\<open>i+1 < end\<close>); a dot that ends the format is the verb.
\<close>

definition width :: "bool \<times> bool \<times> string \<Rightarrow> string \<times> bool \<times> bool \<times> string" where
  "width st =
     (case st of
        (good, afterIndex, fmt) \<Rightarrow>
          if fmt \<noteq> [] \<and> hd fmt = CHR ''*'' then (''%!(BADWIDTH)'', good, False, tl fmt)
          else
            (case parsenum fmt of
               (widPresent, rest) \<Rightarrow>
                 ([], good \<and> \<not> (afterIndex \<and> widPresent), afterIndex, rest)))"

definition precision :: "bool \<times> bool \<times> string \<Rightarrow> string \<times> bool \<times> bool \<times> string" where
  "precision st =
     (case st of
        (good, afterIndex, fmt) \<Rightarrow>
          if fmt \<noteq> [] \<and> tl fmt \<noteq> [] \<and> hd fmt = CHR ''.'' then
            (case argNumber (good \<and> \<not> afterIndex) (tl fmt) of
               (good', found, fmt') \<Rightarrow>
                 if fmt' \<noteq> [] \<and> hd fmt' = CHR ''*'' then (''%!(BADPREC)'', good', False, tl fmt')
                 else (case parsenum fmt' of (_, rest) \<Rightarrow> ([], good', found, rest)))
          else ([], good, afterIndex, fmt))"

definition directive :: "string \<Rightarrow> string \<times> string" where
  "directive fmt =
     (case width (argNumber True (dropWhile isFlag fmt)) of
        (out1, good1, after1, fmt1) \<Rightarrow>
          (case precision (good1, after1, fmt1) of
             (out2, good2, after2, fmt2) \<Rightarrow>
               (case (if after2 then (good2, after2, fmt2) else argNumber good2 fmt2) of
                  (good3, _, fmt3) \<Rightarrow>
                    if fmt3 = [] then (out1 @ out2 @ ''%!(NOVERB)'', [])
                    else
                      (case decodeRune fmt3 of
                         (verb, rest) \<Rightarrow>
                           if verb = ''%'' then (out1 @ out2 @ ''%'', rest)
                           else if \<not> good3 then (out1 @ out2 @ ''%!'' @ verb @ ''(BADINDEX)'', rest)
                           else (out1 @ out2 @ ''%!'' @ verb @ ''(MISSING)'', rest)))))"

lemma parsenum_loop_length: "length (snd (parsenum_loop num isnum s)) \<le> length s"
  by (induction num isnum s rule: parsenum_loop.induct) auto

lemma parsenum_length: "parsenum s = (b, rest) \<Longrightarrow> length rest \<le> length s"
  using parsenum_loop_length [of 0 False s] by (simp add: parsenum_def)

lemma argNumber_length: "argNumber g s = (g', f, rest) \<Longrightarrow> length rest \<le> length s"
  by (auto simp: argNumber_def split: if_splits prod.splits)

lemma width_length: "width (g, a, s) = (out, g', a', rest) \<Longrightarrow> length rest \<le> length s"
  by (auto simp: width_def split: if_splits prod.splits dest: parsenum_length)

lemma precision_length:
  "precision (g, a, s) = (out, g', a', rest) \<Longrightarrow> length rest \<le> length s"
  by (fastforce simp: precision_def split: if_splits prod.splits
        dest: parsenum_length argNumber_length)

lemma decodeRune_length: "decodeRune s = (verb, rest) \<Longrightarrow> length rest \<le> length s"
  by (auto simp: decodeRune_def Let_def split: list.splits if_splits)

lemma directive_length: "directive s = (out, rest) \<Longrightarrow> length rest \<le> length s"
proof -
  assume d: "directive s = (out, rest)"
  obtain g0 a0 s0 where s0: "argNumber True (dropWhile isFlag s) = (g0, a0, s0)"
    by (cases "argNumber True (dropWhile isFlag s)") auto
  obtain o1 g1 a1 s1 where s1: "width (g0, a0, s0) = (o1, g1, a1, s1)"
    by (cases "width (g0, a0, s0)") auto
  obtain o2 g2 a2 s2 where s2: "precision (g1, a1, s1) = (o2, g2, a2, s2)"
    by (cases "precision (g1, a1, s1)") auto
  obtain g3 a3 s3 where s3: "(if a2 then (g2, a2, s2) else argNumber g2 s2) = (g3, a3, s3)"
    by (cases "if a2 then (g2, a2, s2) else argNumber g2 s2") auto
  have l0: "length s0 \<le> length s"
    using argNumber_length [OF s0] length_dropWhile_le [of isFlag s] by linarith
  have l1: "length s1 \<le> length s0" using width_length [OF s1] .
  have l2: "length s2 \<le> length s1" using precision_length [OF s2] .
  have l3: "length s3 \<le> length s2"
    using s3 argNumber_length [of g2 s2 g3 a3 s3] by (auto split: if_splits)
  have "length rest \<le> length s3"
    using d s0 s1 s2 s3
    by (auto simp: directive_def split: if_splits prod.splits dest: decodeRune_length)
  with l0 l1 l2 l3 show ?thesis by linarith
qed

text \<open>\<^verbatim>\<open>fmt.Sprintf(format)\<close>: the format loop.\<close>

function Sprintf :: "string \<Rightarrow> string" where
  "Sprintf [] = []"
| "Sprintf (c # cs) =
     (if c = CHR ''%'' then (case directive cs of (out, rest) \<Rightarrow> out @ Sprintf rest)
      else c # Sprintf cs)"
  by pat_completeness auto
termination
  by (relation "measure length") (auto dest: directive_length [OF sym] simp: less_Suc_eq_le)

section \<open>The operating system and the HTTP library, as the program sees them\<close>

text \<open>
  Errors of \<^verbatim>\<open>os.Stat\<close>, \<^verbatim>\<open>ioutil.ReadDir\<close> and \<^verbatim>\<open>os.Getwd\<close>.
  \<^verbatim>\<open>os.IsNotExist\<close> holds of "no such file or directory" only: a path through a
  regular file (\<^verbatim>\<open>ENOTDIR\<close>) or an unreadable directory (\<^verbatim>\<open>EACCES\<close>) is another
  error.
\<close>

datatype os_error = ErrNotExist | ErrPermission | ErrNotDir | ErrOther string

definition IsNotExist :: "os_error \<Rightarrow> bool" where
  "IsNotExist err = (err = ErrNotExist)"

text \<open>\<^verbatim>\<open>os.FileInfo\<close>: the two methods the program calls.\<close>

record FileInfo =
  Name :: string
  IsDir :: bool

text \<open>\<^verbatim>\<open>http.Request\<close>: the fields the program reads.\<close>

record Request =
  URLPath :: string
  RemoteAddr :: string

text \<open>
  \<^verbatim>\<open>http.ResponseWriter\<close>: the status line, once written, and the body. The first
  \<^verbatim>\<open>WriteHeader\<close> fixes the status and later ones change nothing; a \<^verbatim>\<open>Write\<close>
  before any \<^verbatim>\<open>WriteHeader\<close> sends status 200 first.
\<close>

record ResponseWriter =
  status :: "nat option"
  body :: string

definition WriteHeader :: "nat \<Rightarrow> ResponseWriter \<Rightarrow> ResponseWriter" where
  "WriteHeader code rw = (if status rw = None then rw\<lparr>status := Some code\<rparr> else rw)"

definition Write :: "string \<Rightarrow> ResponseWriter \<Rightarrow> ResponseWriter" where
  "Write bytes rw = (WriteHeader 200 rw)\<lparr>body := body (WriteHeader 200 rw) @ bytes\<rparr>"

definition newline :: string where
  "newline = [char_of (10::nat)]"

text \<open>
  \<^verbatim>\<open>http.Error(w, error, code)\<close> writes the header with the code and prints the text
  and a newline; \<^verbatim>\<open>http.NotFound\<close> and \<^verbatim>\<open>http.StatusText(500)\<close>.
\<close>

definition Error :: "string \<Rightarrow> nat \<Rightarrow> ResponseWriter \<Rightarrow> ResponseWriter" where
  "Error msg code rw = Write (msg @ newline) (WriteHeader code rw)"

definition NotFound :: "ResponseWriter \<Rightarrow> ResponseWriter" where
  "NotFound rw = Error ''404 page not found'' 404 rw"

definition StatusText500 :: string where
  "StatusText500 = ''Internal Server Error''"

section \<open>The program's data\<close>

text \<open>
  The package-level variable \<^verbatim>\<open>Root\<close> (\<^verbatim>\<open>var Root string\<close>), whose zero value is the
  empty string.
\<close>

record globals =
  Root :: string

definition zero_globals :: globals where
  "zero_globals = \<lparr>Root = []\<rparr>"

text \<open>\<^verbatim>\<open>type Listing struct\<close>.\<close>

record Listing =
  Root :: string
  Dir :: string
  Directories :: "FileInfo list"
  Files :: "FileInfo list"

text \<open>
  What a request does to the world outside the response: the calls to the file
  system, the lines handed to \<^verbatim>\<open>log.Println\<close>, the data handed to
  \<^verbatim>\<open>Template.ExecuteTemplate\<close> and the requests handed to the file server, in order.
\<close>

datatype event =
  Stat string
| ReadDir string
| Println string
| Execute Listing
| ServeFile string string

text \<open>
  The environment of a request: the working directory (\<^verbatim>\<open>os.Getwd\<close>), the file
  system (\<^verbatim>\<open>os.Stat\<close>, \<^verbatim>\<open>ioutil.ReadDir\<close>), the template engine and the file
  server. \<^verbatim>\<open>ExecuteTemplate\<close> writes into the response as it goes: its result here
  is the chunks it wrote and the error that stopped it, if any. The file server
  (\<^verbatim>\<open>http.FileServer(http.Dir(root))\<close>) sees the request and the response only.
\<close>

record env =
  os_Getwd :: "os_error + string"
  os_Stat :: "string \<Rightarrow> os_error + FileInfo"
  ioutil_ReadDir :: "string \<Rightarrow> os_error + FileInfo list"
  ExecuteTemplate :: "Listing \<Rightarrow> string list \<times> string option"
  FileServer :: "string \<Rightarrow> Request \<Rightarrow> ResponseWriter \<Rightarrow> ResponseWriter"

text \<open>The state a handler works on, and how a handler ends: it returns or it panics.\<close>

record world =
  vars :: globals
  resp :: ResponseWriter
  trace :: "event list"

datatype outcome = Returned world | Panicked world

type_synonym Handler = "Request \<Rightarrow> world \<Rightarrow> outcome"

fun final :: "outcome \<Rightarrow> world" where
  "final (Returned w) = w"
| "final (Panicked w) = w"

definition emit :: "event \<Rightarrow> world \<Rightarrow> world" where
  "emit ev w = w\<lparr>trace := trace w @ [ev]\<rparr>"

definition respond :: "(ResponseWriter \<Rightarrow> ResponseWriter) \<Rightarrow> world \<Rightarrow> world" where
  "respond f w = w\<lparr>resp := f (resp w)\<rparr>"

section \<open>The functions of \<^verbatim>\<open>main.go\<close>\<close>

text \<open>
  \<^verbatim>\<open>filepath.Abs(path)\<close> on Unix: an absolute path is cleaned; any other is joined
  to the working directory; when that cannot be read the result is the empty string
  and the error.
\<close>

definition Abs :: "env \<Rightarrow> string \<Rightarrow> string \<times> os_error option" where
  "Abs E path =
     (if IsAbs path then (Clean path, None)
      else
        (case os_Getwd E of
           Inl err \<Rightarrow> ([], Some err)
         | Inr wd \<Rightarrow> (Join wd path, None)))"

text \<open>
  \<^verbatim>\<open>func abs(dir, root string) string\<close>. Both errors of \<^verbatim>\<open>filepath.Abs\<close> are
  dropped; the cleaned path is the format string of \<^verbatim>\<open>fmt.Sprintf\<close>.
\<close>

definition abs_path :: "env \<Rightarrow> string \<Rightarrow> string \<Rightarrow> string" where
  "abs_path E dir root =
     (let dir1 = fst (Abs E dir);
          root1 = fst (Abs E root);
          path = TrimPrefix dir1 root1
      in Sprintf (Clean (CHR ''/'' # path)))"

text \<open>\<^verbatim>\<open>func filter\<close>: the loop appends to \<^verbatim>\<open>vsf\<close> the elements that pass.\<close>

fun filter_loop :: "(FileInfo \<Rightarrow> bool) \<Rightarrow> FileInfo list \<Rightarrow> FileInfo list \<Rightarrow> FileInfo list" where
  "filter_loop f vsf [] = vsf"
| "filter_loop f vsf (v # files) = filter_loop f (if f v then vsf @ [v] else vsf) files"

definition filter_infos :: "FileInfo list \<Rightarrow> (FileInfo \<Rightarrow> bool) \<Rightarrow> FileInfo list" where
  "filter_infos files f = filter_loop f [] files"

text \<open>\<^verbatim>\<open>func filterFiles\<close>: hidden files are filtered out.\<close>

definition filterFiles :: "FileInfo list \<Rightarrow> FileInfo list" where
  "filterFiles files = filter_infos files (\<lambda>fi. \<not> HasPrefix (Name fi) ''.'')"

text \<open>\<^verbatim>\<open>func splitFiles\<close>: the loop appends each element to \<^verbatim>\<open>a\<close> or to \<^verbatim>\<open>b\<close>.\<close>

fun splitFiles_loop ::
  "(FileInfo \<Rightarrow> bool) \<Rightarrow> FileInfo list \<Rightarrow> FileInfo list \<Rightarrow> FileInfo list
    \<Rightarrow> FileInfo list \<times> FileInfo list" where
  "splitFiles_loop f a b [] = (a, b)"
| "splitFiles_loop f a b (v # vs) =
     (if f v then splitFiles_loop f (a @ [v]) b vs else splitFiles_loop f a (b @ [v]) vs)"

definition splitFiles :: "FileInfo list \<Rightarrow> (FileInfo \<Rightarrow> bool) \<Rightarrow> FileInfo list \<times> FileInfo list" where
  "splitFiles vs f = splitFiles_loop f [] [] vs"

text \<open>
  \<^verbatim>\<open>func handleDirectory\<close>. The template writes its chunks into the response; when
  it ends with an error, the error is logged and \<^verbatim>\<open>http.Error\<close> is called on the
  same response.
\<close>

definition handleDirectory :: "env \<Rightarrow> string \<Rightarrow> world \<Rightarrow> world" where
  "handleDirectory E path w0 =
     (let w1 = emit (ReadDir path) w0 in
      case ioutil_ReadDir E path of
        Inl err \<Rightarrow> respond (Error StatusText500 500) w1
      | Inr contents0 \<Rightarrow>
          (let contents = filterFiles contents0;
               (directories, files) = splitFiles contents IsDir;
               list = \<lparr>Root = globals.Root (vars w1), Dir = path,
                       Directories = directories, Files = files\<rparr>;
               (chunks, err) = ExecuteTemplate E list;
               w2 = respond (\<lambda>rw. foldl (\<lambda>rw c. Write c rw) rw chunks) (emit (Execute list) w1)
           in case err of
                None \<Rightarrow> w2
              | Some msg \<Rightarrow> respond (Error StatusText500 500) (emit (Println msg) w2)))"

text \<open>
  \<^verbatim>\<open>func handleServe\<close>. After an error of \<^verbatim>\<open>os.Stat\<close> that is not "does not
  exist" the handler goes on with \<^verbatim>\<open>info == nil\<close>, and \<^verbatim>\<open>info.IsDir()\<close> panics.
  For a directory, \<^verbatim>\<open>ioutil.ReadDir\<close> is called once with its result dropped, then
  \<^verbatim>\<open>handleDirectory\<close> reads the directory again.
\<close>

definition handleServe :: "env \<Rightarrow> Handler \<Rightarrow> Handler" where
  "handleServe E next r w0 =
     (let path = Clean (URLPath r);
          w1 = emit (Stat path) w0
      in case os_Stat E path of
           Inl err \<Rightarrow>
             if IsNotExist err then Returned (respond NotFound w1)
             else Panicked w1
         | Inr info \<Rightarrow>
             if IsDir info then Returned (handleDirectory E path (emit (ReadDir path) w1))
             else next r w1)"

text \<open>
  \<^verbatim>\<open>func loggingMiddleware\<close>: \<^verbatim>\<open>log.Println\<close> prints its two operands with a space
  between them.
\<close>

definition loggingMiddleware :: "env \<Rightarrow> Handler \<Rightarrow> Handler" where
  "loggingMiddleware E next r w =
     next r (emit (Println (abs_path E (Clean (URLPath r)) (globals.Root (vars w))
                              @ '' '' @ RemoteAddr r)) w)"

text \<open>
  \<^verbatim>\<open>http.StripPrefix(prefix, h)\<close>: a path that does not begin with the prefix is
  answered with \<^verbatim>\<open>http.NotFound\<close>.
\<close>

definition StripPrefix :: "string \<Rightarrow> Handler \<Rightarrow> Handler" where
  "StripPrefix pre h r w =
     (if pre = [] then h r w
      else
        (let p = TrimPrefix (URLPath r) pre in
         if length p < length (URLPath r) then h (r\<lparr>URLPath := p\<rparr>) w
         else Returned (respond NotFound w)))"

text \<open>The file server as a handler: \<^verbatim>\<open>http.FileServer(http.Dir(root))\<close>.\<close>

definition fileServer :: "env \<Rightarrow> string \<Rightarrow> Handler" where
  "fileServer E root r w =
     Returned (respond (FileServer E root r) (emit (ServeFile root (URLPath r)) w))"

text \<open>
  \<^verbatim>\<open>func main\<close>, up to the handler it registers for every path. \<^verbatim>\<open>Root, err :=
  os.Getwd()\<close> declares a variable \<^verbatim>\<open>Root\<close> local to \<^verbatim>\<open>main\<close> (the short
  declaration has a new name on its left, and \<^verbatim>\<open>err\<close> is the one declared above
  it): the package-level \<^verbatim>\<open>Root\<close> is not assigned. The result is the error that
  \<^verbatim>\<open>log.Fatal\<close> ends the process with, or the package-level variables and the
  handler.
\<close>

definition main :: "env \<Rightarrow> globals \<Rightarrow> os_error + globals \<times> Handler" where
  "main E G =
     (case os_Getwd E of
        Inl err \<Rightarrow> Inl err
      | Inr Root_local \<Rightarrow>
          Inr (G, StripPrefix ''/'' (loggingMiddleware E (handleServe E (fileServer E Root_local)))))"

text \<open>
  The values the template computes for a listing: \<^verbatim>\<open>$dir := abs .Dir .Root\<close>, shown
  in the title, and for each entry of \<^verbatim>\<open>.Directories\<close> and then of \<^verbatim>\<open>.Files\<close> the
  target \<^verbatim>\<open>printf "%s/%s" $dir .Name | clean\<close> and the text \<^verbatim>\<open>.Name\<close> of its link.
  (The template engine escapes these values for their place in the page as it
  writes them; that is its business and outside the program.)
\<close>

definition template_dir :: "env \<Rightarrow> Listing \<Rightarrow> string" where
  "template_dir E l = abs_path E (Dir l) (Root l)"

definition href :: "env \<Rightarrow> Listing \<Rightarrow> FileInfo \<Rightarrow> string" where
  "href E l fi = Clean (template_dir E l @ ''/'' @ Name fi)"

definition links :: "env \<Rightarrow> Listing \<Rightarrow> (string \<times> string) list" where
  "links E l =
     map (\<lambda>fi. (href E l fi, Name fi)) (Directories l)
     @ map (\<lambda>fi. (href E l fi, Name fi)) (Files l)"

section \<open>From a link of the page to the request for it\<close>

text \<open>
  The template stands in an \<^verbatim>\<open>href\<close> attribute, so \<^verbatim>\<open>html/template\<close> passes the
  target through its URL filter (which lets through every target with a separator
  before its first colon, as every rooted target has), its URL normaliser and its
  attribute escaper (which the client's HTML parser undoes). The normaliser copies
  letters, digits, the unreserved and the reserved characters and every percent sign
  that begins a valid escape, and writes any other byte as a percent escape with
  two lower-case hexadecimal digits.
\<close>

definition isHex :: "char \<Rightarrow> bool" where
  "isHex c = (c \<in> set ''0123456789abcdefABCDEF'')"

definition url_kept :: "char \<Rightarrow> bool" where
  "url_kept c =
     (c \<in> set ''!#$&*+,/:;=?@[]'' \<or> c \<in> set ''-._~''
      \<or> c \<in> set ''abcdefghijklmnopqrstuvwxyz''
      \<or> c \<in> set ''ABCDEFGHIJKLMNOPQRSTUVWXYZ''
      \<or> c \<in> set ''0123456789'')"

definition hexdigit :: "nat \<Rightarrow> char" where
  "hexdigit n = ''0123456789abcdef'' ! n"

definition hex_byte :: "char \<Rightarrow> string" where
  "hex_byte c = [hexdigit (of_char c div 16), hexdigit (of_char c mod 16)]"

definition valid_escape :: "string \<Rightarrow> bool" where
  "valid_escape cs = (case cs of h1 # h2 # _ \<Rightarrow> isHex h1 \<and> isHex h2 | _ \<Rightarrow> False)"

fun urlNormalize :: "string \<Rightarrow> string" where
  "urlNormalize [] = []"
| "urlNormalize (c # cs) =
     (if url_kept c \<or> (c = CHR ''%'' \<and> valid_escape cs) then c # urlNormalize cs
      else CHR ''%'' # hex_byte c @ urlNormalize cs)"

text \<open>
  The server reads the request path with \<^verbatim>\<open>net/url\<close>, which decodes the percent
  escapes into \<^verbatim>\<open>URL.Path\<close> and refuses a percent sign that does not begin one
  (the request is then answered with status 400 and no handler runs).
\<close>

definition unhex :: "char \<Rightarrow> nat" where
  "unhex c =
     (if c \<in> set ''0123456789'' then of_char c - 48
      else if c \<in> set ''abcdef'' then of_char c - 97 + 10
      else if c \<in> set ''ABCDEF'' then of_char c - 65 + 10
      else 0)"

fun unescape :: "string \<Rightarrow> string option" where
  "unescape [] = Some []"
| "unescape (c # h1 # h2 # rest) =
     (if c = CHR ''%'' then
        (if isHex h1 \<and> isHex h2
         then map_option ((#) (char_of (unhex h1 * 16 + unhex h2))) (unescape rest)
         else None)
      else map_option ((#) c) (unescape (h1 # h2 # rest)))"
| "unescape (c # cs) =
     (if c = CHR ''%'' then None else map_option ((#) c) (unescape cs))"

text \<open>
  The \<^verbatim>\<open>URL.Path\<close> of the request that following a link makes, for the target the
  template computed: the path of the normalised reference ends at its first
  \<^verbatim>\<open>?\<close> or \<^verbatim>\<open>#\<close> (what follows is the query or the fragment), and the server
  decodes it.
\<close>

definition link_request_path :: "string \<Rightarrow> string option" where
  "link_request_path target =
     unescape (takeWhile (\<lambda>c. c \<noteq> CHR ''?'' \<and> c \<noteq> CHR ''#'') (urlNormalize target))"


section \<open>Notions used to state the properties\<close>

text \<open>The world at the start of a request: nothing written, nothing done yet.\<close>

definition start :: "globals \<Rightarrow> world" where
  "start G = \<lparr>vars = G, resp = \<lparr>status = None, body = []\<rparr>, trace = []\<rparr>"

text \<open>The listings handed to the template, in order.\<close>

fun listings :: "event list \<Rightarrow> Listing list" where
  "listings [] = []"
| "listings (Execute l # evs) = l # listings evs"
| "listings (_ # evs) = listings evs"


text \<open>The handler that \<^verbatim>\<open>main\<close> registers, for the file server's root \<open>root\<close>.\<close>

definition chain :: "env \<Rightarrow> string \<Rightarrow> Handler" where
  "chain E root = StripPrefix ''/'' (loggingMiddleware E (handleServe E (fileServer E root)))"

text \<open>
  An ordinary path element: not empty, not \<^verbatim>\<open>.\<close> or \<^verbatim>\<open>..\<close>, and without a
  separator. The name of a directory entry that is not hidden is one.
\<close>

definition normal :: "string \<Rightarrow> bool" where
  "normal e = (e \<noteq> [] \<and> e \<noteq> ''.'' \<and> e \<noteq> ''..'' \<and> CHR ''/'' \<notin> set e)"



text \<open>
  An example: the process runs in \<^verbatim>\<open>/srv\<close>, which holds the directory \<^verbatim>\<open>docs\<close> with
  the file \<^verbatim>\<open>readme.txt\<close>, the hidden file \<^verbatim>\<open>.hidden\<close> and the directory
  \<^verbatim>\<open>locked\<close>, which cannot be read. Outside \<^verbatim>\<open>/srv\<close> there is the directory
  \<^verbatim>\<open>/etc\<close> with the file \<^verbatim>\<open>passwd\<close>. The template engine writes a page in one
  chunk.
\<close>

definition entry :: "string \<Rightarrow> bool \<Rightarrow> FileInfo" where
  "entry name dir = \<lparr>Name = name, IsDir = dir\<rparr>"

definition example_stat :: "string \<Rightarrow> os_error + FileInfo" where
  "example_stat p =
     (if p = ''.'' then Inr (entry ''srv'' True)
      else if p = ''docs'' then Inr (entry ''docs'' True)
      else if p = ''locked'' then Inr (entry ''locked'' True)
      else if p = ''/etc'' then Inr (entry ''etc'' True)
      else if p = ''docs/readme.txt'' then Inr (entry ''readme.txt'' False)
      else if p = ''/etc/passwd'' then Inr (entry ''passwd'' False)
      else if p = ''docs/readme.txt/x'' then Inl ErrNotDir
      else Inl ErrNotExist)"

definition example_readDir :: "string \<Rightarrow> os_error + FileInfo list" where
  "example_readDir p =
     (if p = ''.'' then Inr [entry ''.hidden'' False, entry ''docs'' True, entry ''locked'' True]
      else if p = ''docs'' then Inr [entry ''readme.txt'' False]
      else if p = ''/etc'' then Inr [entry ''passwd'' False]
      else if p = ''locked'' then Inl ErrPermission
      else Inl ErrNotExist)"

definition example_env :: env where
  "example_env =
     \<lparr>os_Getwd = Inr ''/srv'',
      os_Stat = example_stat,
      ioutil_ReadDir = example_readDir,
      ExecuteTemplate = (\<lambda>l. ([''<!DOCTYPE html>''], None)),
      FileServer = (\<lambda>root r rw. Write ''file bytes'' rw)\<rparr>"

text \<open>
  The same, with a template engine that fails after it wrote the head of the page.
  (Of \<^verbatim>\<open>ExecuteTemplate\<close> the library says: if an error occurs executing the
  template or writing its output, execution stops, but partial results may already
  have been written to the output writer.)
\<close>

definition partial_page_env :: env where
  "partial_page_env =
     example_env\<lparr>ExecuteTemplate := (\<lambda>l. ([''<!DOCTYPE html>''], Some ''template: execution failed''))\<rparr>"

definition request :: "string \<Rightarrow> Request" where
  "request p = \<lparr>URLPath = p, RemoteAddr = ''127.0.0.1:4000''\<rparr>"

text \<open>Two listings of the example: of \<^verbatim>\<open>docs\<close>, and of \<^verbatim>\<open>/etc\<close>, outside the root.\<close>

definition docs_listing :: Listing where
  "docs_listing =
     \<lparr>Root = [], Dir = ''docs'', Directories = [], Files = [entry ''readme.txt'' False]\<rparr>"


section \<open>The loops of \<^verbatim>\<open>filter\<close> and \<^verbatim>\<open>splitFiles\<close>\<close>

lemma filter_loop_eq: "filter_loop f vsf files = vsf @ filter f files"
  by (induction files arbitrary: vsf) auto

lemma filterFiles_eq: "filterFiles files = filter (\<lambda>fi. \<not> HasPrefix (Name fi) ''.'') files"
  by (simp add: filterFiles_def filter_infos_def filter_loop_eq)

lemma splitFiles_loop_eq:
  "splitFiles_loop f a b vs = (a @ filter f vs, b @ filter (\<lambda>v. \<not> f v) vs)"
  by (induction vs arbitrary: a b) auto

lemma splitFiles_eq: "splitFiles vs f = (filter f vs, filter (\<lambda>v. \<not> f v) vs)"
  by (simp add: splitFiles_def splitFiles_loop_eq)

lemma HasPrefix_dot: "HasPrefix s ''.'' = (s \<noteq> [] \<and> hd s = CHR ''.'')"
  by (cases s) (auto simp: HasPrefix_def)

section \<open>Lexical paths\<close>

lemma split_slash_nonempty [simp]: "split_slash s \<noteq> []"
  by (induction s) auto

lemma split_slash_append: "split_slash (a @ CHR ''/'' # b) = split_slash a @ split_slash b"
  by (induction a) auto

lemma split_slash_noslash: "CHR ''/'' \<notin> set s \<Longrightarrow> split_slash s = [s]"
  by (induction s) auto

lemma split_elems_noslash: "e \<in> set (split_slash s) \<Longrightarrow> CHR ''/'' \<notin> set e"
proof (induction s arbitrary: e)
  case Nil
  then show ?case by simp
next
  case (Cons c cs)
  show ?case
  proof (cases "c = CHR ''/''")
    case True
    with Cons show ?thesis by auto
  next
    case False
    have hd_in: "hd (split_slash cs) \<in> set (split_slash cs)" by simp
    from Cons.prems False
    have "e = c # hd (split_slash cs) \<or> e \<in> set (tl (split_slash cs))" by simp
    then show ?thesis
    proof
      assume "e = c # hd (split_slash cs)"
      with False Cons.IH [OF hd_in] show ?thesis by simp
    next
      assume "e \<in> set (tl (split_slash cs))"
      then have "e \<in> set (split_slash cs)" by (metis list.set_sel(2) split_slash_nonempty)
      then show ?thesis by (rule Cons.IH)
    qed
  qed
qed

lemma split_join:
  "es \<noteq> [] \<Longrightarrow> list_all (\<lambda>e. CHR ''/'' \<notin> set e) es \<Longrightarrow> split_slash (join_slash es) = es"
proof (induction es rule: join_slash.induct)
  case 1
  then show ?case by simp
next
  case (2 e)
  then show ?case by (simp add: split_slash_noslash)
next
  case (3 e e' es)
  then show ?case by (simp add: split_slash_append split_slash_noslash)
qed


lemma clean_step_normal: "normal e \<Longrightarrow> clean_step r out e = out @ [e]"
  by (simp add: clean_step_def normal_def)

lemma foldl_clean_normal: "list_all normal es \<Longrightarrow> foldl (clean_step r) out es = out @ es"
  by (induction es arbitrary: out) (auto simp: clean_step_normal)

lemma clean_step_keeps_normal:
  "list_all normal out \<Longrightarrow> CHR ''/'' \<notin> set e \<Longrightarrow> list_all normal (clean_step True out e)"
  by (auto simp: clean_step_def normal_def list_all_iff dest: in_set_butlastD)

lemma foldl_keeps_normal:
  "list_all normal out \<Longrightarrow> list_all (\<lambda>e. CHR ''/'' \<notin> set e) es
    \<Longrightarrow> list_all normal (foldl (clean_step True) out es)"
  by (induction es arbitrary: out) (auto simp: clean_step_keeps_normal)

lemma split_all_noslash: "list_all (\<lambda>e. CHR ''/'' \<notin> set e) (split_slash s)"
  by (simp add: list_all_iff split_elems_noslash)

lemma clean_elems_rooted_normal: "IsAbs p \<Longrightarrow> list_all normal (clean_elems p)"
  by (simp add: clean_elems_def foldl_keeps_normal split_all_noslash)

lemma normal_noslash: "list_all normal X \<Longrightarrow> list_all (\<lambda>e. CHR ''/'' \<notin> set e) X"
  by (simp add: list_all_iff normal_def)

lemma clean_elems_canon:
  assumes "list_all normal X"
  shows "clean_elems (CHR ''/'' # join_slash X) = X"
proof (cases "X = []")
  case True
  then show ?thesis by (simp add: clean_elems_def IsAbs_def clean_step_def)
next
  case False
  with assms have "split_slash (join_slash X) = X"
    by (simp add: split_join normal_noslash)
  with assms show ?thesis
    by (simp add: clean_elems_def IsAbs_def clean_step_def foldl_clean_normal)
qed

lemma Clean_rooted: "IsAbs p \<Longrightarrow> Clean p = CHR ''/'' # join_slash (clean_elems p)"
  by (auto simp: Clean_def IsAbs_def)

lemma IsAbs_Clean: "IsAbs p \<Longrightarrow> IsAbs (Clean p)"
  by (simp add: Clean_rooted) (simp add: IsAbs_def)

lemma clean_elems_Clean: "IsAbs p \<Longrightarrow> clean_elems (Clean p) = clean_elems p"
  by (simp add: Clean_rooted clean_elems_canon clean_elems_rooted_normal)

lemma Clean_idem_rooted:
  assumes "IsAbs p"
  shows "Clean (Clean p) = Clean p"
proof -
  have "Clean (Clean p) = CHR ''/'' # join_slash (clean_elems (Clean p))"
    using Clean_rooted [OF IsAbs_Clean [OF assms]] .
  also have "\<dots> = CHR ''/'' # join_slash (clean_elems p)"
    by (simp add: clean_elems_Clean assms)
  also have "\<dots> = Clean p"
    by (simp add: Clean_rooted assms)
  finally show ?thesis .
qed

lemma Sprintf_no_percent: "CHR ''%'' \<notin> set s \<Longrightarrow> Sprintf s = s"
  by (induction s) auto

lemma Sprintf_slash: "Sprintf (CHR ''/'' # s) = CHR ''/'' # Sprintf s"
  by simp

lemma IsAbs_abs_path: "IsAbs (abs_path E dir root)"
  by (simp add: abs_path_def Let_def Clean_rooted IsAbs_def)



lemma clean_elems_trailing:
  assumes "q \<noteq> []"
  shows "clean_elems (q @ ''/'') = clean_elems q"
proof -
  from assms have "IsAbs (q @ ''/'') = IsAbs q" by (cases q) (auto simp: IsAbs_def)
  moreover have "split_slash (q @ ''/'') = split_slash q @ [[]]"
    using split_slash_append [of q "[]"] by simp
  ultimately show ?thesis by (simp add: clean_elems_def clean_step_def)
qed

lemma IsAbs_append: "IsAbs a \<Longrightarrow> IsAbs (a @ b)"
  by (cases a) (auto simp: IsAbs_def)

lemma Clean_trailing:
  assumes "q \<noteq> []"
  shows "Clean (q @ ''/'') = Clean q"
proof -
  from assms have "IsAbs (q @ ''/'') = IsAbs q" by (cases q) (auto simp: IsAbs_def)
  with assms show ?thesis by (simp add: Clean_def clean_elems_trailing)
qed









section \<open>Evaluating \<^verbatim>\<open>Clean\<close> on the paths of the example\<close>

lemma Clean_missing: "Clean ''missing'' = ''missing''"
  by code_simp

lemma Clean_locked: "Clean ''locked'' = ''locked''"
  by code_simp

lemma Clean_docs: "Clean ''docs'' = ''docs''"
  by code_simp

lemma Clean_through_file: "Clean ''docs/readme.txt/x'' = ''docs/readme.txt/x''"
  by code_simp

lemma Clean_empty: "Clean [] = ''.''"
  by (simp add: Clean_def)

section \<open>The request handler\<close>

text \<open>
  Claim C1. A request whose \<^verbatim>\<open>os.Stat\<close> fails with an error other than "does not
  exist" should be answered with status 500. The handler does not do so: it goes on
  to \<^verbatim>\<open>info.IsDir()\<close> with \<^verbatim>\<open>info == nil\<close> and panics, whatever the error and
  whatever the next handler; nothing has been written to the response by then.
\<close>

lemma handleServe_other_stat_error:
  assumes "os_Stat E (Clean (URLPath r)) = Inl err" and "\<not> IsNotExist err"
  shows "handleServe E next r w = Panicked (emit (Stat (Clean (URLPath r))) w)"
  using assms by (simp add: handleServe_def Let_def)

text \<open>
  Claim C1, at a request for a path below a regular file
  (\<^verbatim>\<open>GET /docs/readme.txt/x\<close>, for which \<^verbatim>\<open>os.Stat\<close> fails with \<^verbatim>\<open>ENOTDIR\<close>): the
  handler panics with no status and no body written, where the claim asks for a
  response with status 500.
\<close>

theorem handleServe_stat_error_panics:
  "handleServe example_env next (request ''docs/readme.txt/x'') (start zero_globals) =
     Panicked \<lparr>vars = zero_globals, resp = \<lparr>status = None, body = []\<rparr>,
               trace = [Stat ''docs/readme.txt/x'']\<rparr>"
  by (simp add: handleServe_def Let_def request_def Clean_through_file example_env_def
      example_stat_def IsNotExist_def emit_def start_def)

text \<open>
  Claim C10. When \<^verbatim>\<open>os.Stat\<close> reports that the path does not exist, the handler
  answers with status 404 and the standard text, and returns. Its only call to the
  file system is that \<^verbatim>\<open>os.Stat\<close>: no directory is read, and the result does not
  depend on the next handler (the file server), which is not called.
\<close>

theorem handleServe_not_found:
  assumes "os_Stat E (Clean (URLPath r)) = Inl err" and "IsNotExist err"
  shows "handleServe E next r (start G) =
     Returned \<lparr>vars = G, resp = \<lparr>status = Some 404, body = ''404 page not found'' @ newline\<rparr>,
               trace = [Stat (Clean (URLPath r))]\<rparr>"
  using assms
  by (simp add: handleServe_def Let_def emit_def respond_def start_def NotFound_def Error_def
      Write_def WriteHeader_def)

theorem handleServe_not_found_witness:
  "os_Stat example_env (Clean (URLPath (request ''missing''))) = Inl ErrNotExist
   \<and> IsNotExist ErrNotExist
   \<and> handleServe example_env (fileServer example_env ''/srv'') (request ''missing'')
         (start zero_globals) =
       Returned \<lparr>vars = zero_globals,
                 resp = \<lparr>status = Some 404, body = ''404 page not found'' @ newline\<rparr>,
                 trace = [Stat ''missing'']\<rparr>"
proof -
  have h1: "os_Stat example_env (Clean (URLPath (request ''missing''))) = Inl ErrNotExist"
    by (simp add: request_def Clean_missing example_env_def example_stat_def)
  have h2: "IsNotExist ErrNotExist"
    by (simp add: IsNotExist_def)
  show ?thesis
    using h1 h2 handleServe_not_found [OF h1 h2, of "fileServer example_env ''/srv''" zero_globals]
    by (simp add: request_def Clean_missing)
qed

text \<open>
  Claim C9. When the path is a directory and \<^verbatim>\<open>ioutil.ReadDir\<close> fails, the answer is
  status 500 with the standard text and nothing else: the template is not executed,
  so no listing is produced. (The directory is read twice: once in \<^verbatim>\<open>handleServe\<close>,
  where the result is dropped, and once in \<^verbatim>\<open>handleDirectory\<close>.)
\<close>

theorem handleServe_read_error:
  assumes "os_Stat E (Clean (URLPath r)) = Inr info" and "IsDir info"
    and "ioutil_ReadDir E (Clean (URLPath r)) = Inl err"
  shows "handleServe E next r (start G) =
     Returned \<lparr>vars = G,
               resp = \<lparr>status = Some 500, body = ''Internal Server Error'' @ newline\<rparr>,
               trace = [Stat (Clean (URLPath r)), ReadDir (Clean (URLPath r)),
                        ReadDir (Clean (URLPath r))]\<rparr>
     \<and> listings (trace (final (handleServe E next r (start G)))) = []"
  using assms
  by (simp add: handleServe_def handleDirectory_def Let_def emit_def respond_def start_def
      Error_def Write_def WriteHeader_def StatusText500_def)

theorem handleServe_read_error_witness:
  "os_Stat example_env (Clean (URLPath (request ''locked''))) = Inr (entry ''locked'' True)
   \<and> IsDir (entry ''locked'' True)
   \<and> ioutil_ReadDir example_env (Clean (URLPath (request ''locked''))) = Inl ErrPermission
   \<and> handleServe example_env (fileServer example_env ''/srv'') (request ''locked'')
         (start zero_globals) =
       Returned \<lparr>vars = zero_globals,
                 resp = \<lparr>status = Some 500, body = ''Internal Server Error'' @ newline\<rparr>,
                 trace = [Stat ''locked'', ReadDir ''locked'', ReadDir ''locked'']\<rparr>
   \<and> listings (trace (final (handleServe example_env (fileServer example_env ''/srv'')
         (request ''locked'') (start zero_globals)))) = []"
proof -
  have h1: "os_Stat example_env (Clean (URLPath (request ''locked''))) = Inr (entry ''locked'' True)"
    by (simp add: request_def Clean_locked example_env_def example_stat_def)
  have h2: "IsDir (entry ''locked'' True)"
    by (simp add: entry_def)
  have h3: "ioutil_ReadDir example_env (Clean (URLPath (request ''locked''))) = Inl ErrPermission"
    by (simp add: request_def Clean_locked example_env_def example_readDir_def)
  show ?thesis
    using h1 h2 h3
      handleServe_read_error [OF h1 h2 h3, of "fileServer example_env ''/srv''" zero_globals]
    by (simp add: request_def Clean_locked)
qed

text \<open>
  Claim C2. When the path is a directory and \<^verbatim>\<open>ioutil.ReadDir\<close> returns its
  children, the handler hands exactly one listing to the template. Its directories
  are the children that are not hidden (the name does not begin with a dot) and are
  directories, its files the children that are not hidden and are not directories,
  each in the order in which \<^verbatim>\<open>ioutil.ReadDir\<close> returned them.
\<close>

theorem handleServe_listing:
  assumes "os_Stat E (Clean (URLPath r)) = Inr info" and "IsDir info"
    and "ioutil_ReadDir E (Clean (URLPath r)) = Inr children"
  shows "listings (trace (final (handleServe E next r (start G)))) =
     [\<lparr>Root = globals.Root G, Dir = Clean (URLPath r),
       Directories =
         filter (\<lambda>c. \<not> (Name c \<noteq> [] \<and> hd (Name c) = CHR ''.'') \<and> IsDir c) children,
       Files =
         filter (\<lambda>c. \<not> (Name c \<noteq> [] \<and> hd (Name c) = CHR ''.'') \<and> \<not> IsDir c) children\<rparr>]"
  using assms
  by (simp add: handleServe_def handleDirectory_def Let_def emit_def respond_def start_def
      filterFiles_eq splitFiles_eq HasPrefix_dot split: prod.splits option.splits)

theorem handleServe_listing_witness:
  "os_Stat example_env (Clean (URLPath (request []))) = Inr (entry ''srv'' True)
   \<and> IsDir (entry ''srv'' True)
   \<and> ioutil_ReadDir example_env (Clean (URLPath (request []))) =
       Inr [entry ''.hidden'' False, entry ''docs'' True, entry ''locked'' True]
   \<and> listings (trace (final (handleServe example_env (fileServer example_env ''/srv'')
         (request []) (start zero_globals)))) =
       [\<lparr>Root = [], Dir = ''.'',
         Directories = [entry ''docs'' True, entry ''locked'' True], Files = []\<rparr>]"
proof -
  have h1: "os_Stat example_env (Clean (URLPath (request []))) = Inr (entry ''srv'' True)"
    by (simp add: request_def Clean_empty example_env_def example_stat_def)
  have h2: "IsDir (entry ''srv'' True)"
    by (simp add: entry_def)
  have h3: "ioutil_ReadDir example_env (Clean (URLPath (request []))) =
      Inr [entry ''.hidden'' False, entry ''docs'' True, entry ''locked'' True]"
    by (simp add: request_def Clean_empty example_env_def example_readDir_def)
  show ?thesis
    using h1 h2 h3
      handleServe_listing [OF h1 h2 h3, of "fileServer example_env ''/srv''" zero_globals]
    by (simp add: request_def Clean_empty entry_def zero_globals_def)
qed

text \<open>
  Claim C8. When the template fails, the failure should be logged, the response
  should be a 500 and no part of the page should have been written before.
  \<^verbatim>\<open>handleDirectory\<close> calls \<^verbatim>\<open>http.Error\<close> with status 500 as it does when
  \<^verbatim>\<open>ioutil.ReadDir\<close> fails, but it has handed the response itself to
  \<^verbatim>\<open>ExecuteTemplate\<close>: when the template stops after it has written the head of the
  page, the status is already 200, and the error text follows the part of the page.
\<close>

theorem handleDirectory_partial_page:
  "ExecuteTemplate partial_page_env
      \<lparr>Root = [], Dir = ''docs'', Directories = [], Files = [entry ''readme.txt'' False]\<rparr> =
     ([''<!DOCTYPE html>''], Some ''template: execution failed'')
   \<and> handleDirectory partial_page_env ''docs'' (start zero_globals) =
     \<lparr>vars = zero_globals,
      resp = \<lparr>status = Some 200, body = ''<!DOCTYPE html>Internal Server Error'' @ newline\<rparr>,
      trace = [ReadDir ''docs'',
               Execute \<lparr>Root = [], Dir = ''docs'', Directories = [],
                         Files = [entry ''readme.txt'' False]\<rparr>,
               Println ''template: execution failed'']\<rparr>"
  by (simp add: handleDirectory_def Let_def partial_page_env_def example_env_def
      example_readDir_def filterFiles_eq splitFiles_eq HasPrefix_dot entry_def emit_def
      respond_def start_def zero_globals_def Error_def Write_def WriteHeader_def
      StatusText500_def)

text \<open>
  What holds whenever the template fails: the error is logged, and \<^verbatim>\<open>http.Error\<close>
  is called on the response as the template left it. When the template had written
  nothing, that is a 500 with the standard text only.
\<close>

lemma handleDirectory_render_failure:
  assumes "ioutil_ReadDir E path = Inr children"
    and "l = \<lparr>Root = globals.Root G, Dir = path,
               Directories = fst (splitFiles (filterFiles children) IsDir),
               Files = snd (splitFiles (filterFiles children) IsDir)\<rparr>"
    and "ExecuteTemplate E l = (chunks, Some msg)"
  shows "handleDirectory E path (start G) =
     \<lparr>vars = G,
      resp = Error StatusText500 500
               (foldl (\<lambda>rw c. Write c rw) \<lparr>status = None, body = []\<rparr> chunks),
      trace = [ReadDir path, Execute l, Println msg]\<rparr>"
proof -
  obtain ds fs where sp: "splitFiles (filterFiles children) IsDir = (ds, fs)"
    by (cases "splitFiles (filterFiles children) IsDir") auto
  with assms(2) have l: "l = \<lparr>Root = globals.Root G, Dir = path, Directories = ds, Files = fs\<rparr>"
    by simp
  with assms(3) have ex: "ExecuteTemplate E
      \<lparr>Root = globals.Root G, Dir = path, Directories = ds, Files = fs\<rparr> = (chunks, Some msg)"
    by simp
  show ?thesis
    using assms(1) sp ex l
    by (simp add: handleDirectory_def Let_def emit_def respond_def start_def)
qed

lemma handleDirectory_render_error:
  assumes "ioutil_ReadDir E path = Inr children"
    and "l = \<lparr>Root = globals.Root G, Dir = path,
               Directories = fst (splitFiles (filterFiles children) IsDir),
               Files = snd (splitFiles (filterFiles children) IsDir)\<rparr>"
    and "ExecuteTemplate E l = ([], Some msg)"
  shows "handleDirectory E path (start G) =
     \<lparr>vars = G,
      resp = \<lparr>status = Some 500, body = ''Internal Server Error'' @ newline\<rparr>,
      trace = [ReadDir path, Execute l, Println msg]\<rparr>"
  using handleDirectory_render_failure [OF assms]
  by (simp add: Error_def Write_def WriteHeader_def StatusText500_def)

section \<open>The package-level variable \<^verbatim>\<open>Root\<close>\<close>

text \<open>
  Claim C3. The serving root should be fixed at startup from the working directory.
  The package-level variable is not: \<^verbatim>\<open>main\<close> started in \<^verbatim>\<open>/srv\<close> leaves it
  empty, because \<^verbatim>\<open>Root, err := os.Getwd()\<close> declares a local variable of the same
  name.
\<close>

theorem main_leaves_Root_empty:
  "os_Getwd example_env = Inr ''/srv''
   \<and> map_sum id (\<lambda>(G, h). globals.Root G) (main example_env zero_globals) = Inr []"
  by (simp add: main_def example_env_def zero_globals_def)

lemma listings_append: "listings (a @ b) = listings a @ listings b"
  by (induction a rule: listings.induct) auto

lemma handleDirectory_vars: "vars (handleDirectory E path w) = vars w"
  by (simp add: handleDirectory_def Let_def emit_def respond_def split: sum.splits prod.splits option.splits)

lemma handleDirectory_listings:
  "list_all (\<lambda>l. Listing.Root l = globals.Root (vars w)) (listings (trace w)) \<Longrightarrow>
   list_all (\<lambda>l. Listing.Root l = globals.Root (vars w)) (listings (trace (handleDirectory E path w)))"
  by (simp add: handleDirectory_def Let_def emit_def respond_def listings_append
      split: sum.splits prod.splits option.splits)

lemma handleServe_vars:
  "vars (final (handleServe E (fileServer E root) r w)) = vars w"
  by (simp add: handleServe_def Let_def handleDirectory_vars fileServer_def emit_def respond_def
      split: sum.splits)

lemma handleServe_listings:
  assumes "list_all (\<lambda>l. Listing.Root l = globals.Root (vars w)) (listings (trace w))"
  shows "list_all (\<lambda>l. Listing.Root l = globals.Root (vars w))
           (listings (trace (final (handleServe E (fileServer E root) r w))))"
proof -
  let ?w2 = "emit (ReadDir (Clean (URLPath r))) (emit (Stat (Clean (URLPath r))) w)"
  have "list_all (\<lambda>l. Listing.Root l = globals.Root (vars ?w2)) (listings (trace ?w2))"
    using assms by (simp add: emit_def listings_append)
  from handleDirectory_listings [OF this, of E "Clean (URLPath r)"]
  have "list_all (\<lambda>l. Listing.Root l = globals.Root (vars w))
          (listings (trace (handleDirectory E (Clean (URLPath r)) ?w2)))"
    by (simp add: emit_def)
  with assms show ?thesis
    by (simp add: handleServe_def Let_def fileServer_def emit_def respond_def listings_append
        split: sum.splits)
qed

lemma chain_vars: "vars (final (chain E root r w)) = vars w"
proof -
  have "\<And>r' w'. vars w' = vars w \<Longrightarrow> vars (final (handleServe E (fileServer E root) r' w')) = vars w"
    by (simp add: handleServe_vars)
  then show ?thesis
    by (simp add: chain_def StripPrefix_def loggingMiddleware_def Let_def emit_def respond_def)
qed

lemma chain_listings:
  assumes "listings (trace w) = []"
  shows "list_all (\<lambda>l. Listing.Root l = globals.Root (vars w)) (listings (trace (final (chain E root r w))))"
proof -
  have *: "list_all (\<lambda>l. Listing.Root l = globals.Root (vars w))
            (listings (trace (final (handleServe E (fileServer E root) r' (emit (Println s) w)))))" for r' s
    using handleServe_listings [of "emit (Println s) w" E root r'] assms
    by (simp add: emit_def listings_append)
  show ?thesis
    using assms * by (simp add: chain_def StripPrefix_def loggingMiddleware_def Let_def respond_def)
qed

text \<open>
  Claim C4. \<^verbatim>\<open>main\<close> does not assign the package-level \<^verbatim>\<open>Root\<close>, which stays
  empty: no request changes it, every listing handed to the template has an empty
  \<^verbatim>\<open>Root\<close>, and both calls of \<^verbatim>\<open>abs\<close> get the empty string as their root (the one
  of the template through \<^verbatim>\<open>.Root\<close>, the one of the logging middleware through the
  variable). \<^verbatim>\<open>filepath.Abs\<close> makes the working directory, cleaned, of the empty
  string.
\<close>

theorem Root_stays_empty:
  assumes "main E zero_globals = Inr (G, h)"
  shows "globals.Root G = []
    \<and> vars (final (h r (start G))) = G
    \<and> list_all (\<lambda>l. Listing.Root l = [] \<and> template_dir E l = abs_path E (Dir l) [])
        (listings (trace (final (h r (start G)))))
    \<and> loggingMiddleware E next r (start G) =
        next r (emit (Println (abs_path E (Clean (URLPath r)) [] @ '' '' @ RemoteAddr r)) (start G))
    \<and> (\<exists>wd. os_Getwd E = Inr wd \<and> (wd = [] \<or> Abs E [] = (Clean wd, None)))"
proof -
  from assms obtain wd where wd: "os_Getwd E = Inr wd" and G: "G = zero_globals"
    and h: "h = chain E wd"
    by (auto simp: main_def chain_def split: sum.splits)
  have root: "globals.Root G = []"
    using G by (simp add: zero_globals_def)
  have v: "vars (final (h r (start G))) = G"
    using chain_vars [of E wd r "start G"] h by (simp add: start_def)
  have "list_all (\<lambda>l. Listing.Root l = globals.Root (vars (start G)))
          (listings (trace (final (chain E wd r (start G)))))"
    by (rule chain_listings) (simp add: start_def)
  then have l: "list_all (\<lambda>l. Listing.Root l = [] \<and> template_dir E l = abs_path E (Dir l) [])
        (listings (trace (final (h r (start G)))))"
    using h root by (simp add: start_def template_dir_def list_all_iff)
  have lg: "loggingMiddleware E next r (start G) =
        next r (emit (Println (abs_path E (Clean (URLPath r)) [] @ '' '' @ RemoteAddr r)) (start G))"
    using root by (simp add: loggingMiddleware_def start_def)
  have a: "wd = [] \<or> Abs E [] = (Clean wd, None)"
    using wd Clean_trailing [of wd] by (auto simp: Abs_def IsAbs_def Join_def)
  from root v l lg wd a show ?thesis by blast
qed

theorem Root_stays_empty_witness:
  "main example_env zero_globals = Inr (zero_globals, chain example_env ''/srv'')
   \<and> globals.Root zero_globals = []
   \<and> vars (final (chain example_env ''/srv'' (request ''/docs'') (start zero_globals))) = zero_globals
   \<and> list_all (\<lambda>l. Listing.Root l = []
                  \<and> template_dir example_env l = abs_path example_env (Dir l) [])
        (listings (trace (final (chain example_env ''/srv'' (request ''/docs'')
           (start zero_globals)))))
   \<and> Abs example_env [] = (''/srv'', None)"
proof -
  have h1: "main example_env zero_globals = Inr (zero_globals, chain example_env ''/srv'')"
    by (simp add: main_def chain_def example_env_def)
  have c: "Clean ''/srv'' = ''/srv''"
    by code_simp
  show ?thesis
    using h1 Root_stays_empty [OF h1, of "request ''/docs''" "fileServer example_env ''/srv''"] c
    by (auto simp: example_env_def)
qed

section \<open>\<^verbatim>\<open>abs\<close> and the links of a listing\<close>






lemma Abs_trailing:
  assumes "d \<noteq> []"
  shows "Abs E (d @ ''/'') = Abs E d"
proof -
  from assms have ia: "IsAbs (d @ ''/'') = IsAbs d" by (cases d) (auto simp: IsAbs_def)
  have j: "Join wd (d @ ''/'') = Join wd d" for wd
  proof (cases "wd = []")
    case True
    with assms show ?thesis by (simp add: Join_def Clean_trailing)
  next
    case False
    then show ?thesis
      using Clean_trailing [of "wd @ CHR ''/'' # d"] by (simp add: Join_def)
  qed
  show ?thesis
    using assms ia by (simp add: Abs_def Clean_trailing j split: sum.splits)
qed

lemma Abs_trailing_many: "d \<noteq> [] \<Longrightarrow> Abs E (d @ replicate n (CHR ''/'')) = Abs E d"
proof (induction n)
  case 0
  then show ?case by simp
next
  case (Suc n)
  have "d @ replicate (Suc n) (CHR ''/'') = (d @ replicate n (CHR ''/'')) @ ''/''"
    by (simp add: replicate_append_same)
  with Suc show ?case
    using Abs_trailing [of "d @ replicate n (CHR ''/'')" E] by simp
qed


text \<open>
  Claim C7. \<^verbatim>\<open>abs\<close> should return the cleaned path
  \<^verbatim>\<open>Clean("/" + TrimPrefix(Abs(dir), Abs(root)))\<close>. It returns that path formatted by
  \<^verbatim>\<open>fmt.Sprintf\<close>, which is another string as soon as the path holds a percent sign:
  for the directory \<^verbatim>\<open>100%\<close> under the root the result is
  \<^verbatim>\<open>/100%!(NOVERB)\<close>, not \<^verbatim>\<open>/100%\<close>.
\<close>

theorem abs_percent_format:
  "abs_path example_env ''100%'' [] = ''/100%!(NOVERB)''
   \<and> Clean (CHR ''/'' # TrimPrefix (fst (Abs example_env ''100%'')) (fst (Abs example_env [])))
       = ''/100%''"
  by code_simp

text \<open>
  What does hold of \<^verbatim>\<open>abs\<close> on every input: the result begins with the separator
  (\<open>IsAbs_abs_path\<close>), and it is the cleaned path when that has no percent sign.
  And \<^verbatim>\<open>strings.TrimPrefix\<close> compares bytes, not path elements: a directory beside
  the root whose name continues the root's name loses the root's name as well.
\<close>

lemma abs_path_percent_free:
  "CHR ''%'' \<notin> set (Clean (CHR ''/'' # TrimPrefix (fst (Abs E dir)) (fst (Abs E root)))) \<Longrightarrow>
   abs_path E dir root = Clean (CHR ''/'' # TrimPrefix (fst (Abs E dir)) (fst (Abs E root)))"
  by (simp add: abs_path_def Let_def Sprintf_no_percent)

lemma abs_string_prefix: "abs_path example_env ''/srv2/x'' ''/srv'' = ''/2/x''"
  by code_simp

text \<open>
  Claim C6. The target of each link of a listing, directories first and files after
  them, is \<^verbatim>\<open>Clean(abs(dir, root) + "/" + name)\<close>. It is a rooted path and it is
  clean (cleaning it again changes nothing), whatever \<^verbatim>\<open>abs\<close> returned; and
  separators at the end of a non-empty \<^verbatim>\<open>dir\<close> do not change it.
\<close>

theorem href_normalized:
  "links E l =
     map (\<lambda>fi. (Clean (abs_path E (Dir l) (Listing.Root l) @ ''/'' @ Name fi), Name fi))
       (Directories l @ Files l)
   \<and> IsAbs (href E l fi)
   \<and> Clean (href E l fi) = href E l fi
   \<and> (Dir l \<noteq> [] \<longrightarrow> href E (l\<lparr>Dir := Dir l @ replicate n (CHR ''/'')\<rparr>) fi = href E l fi)"
proof -
  have q: "IsAbs (template_dir E l @ ''/'' @ Name fi)"
    using IsAbs_abs_path [of E "Dir l" "Listing.Root l"]
    by (simp add: template_dir_def IsAbs_append)
  have 1: "links E l =
     map (\<lambda>fi. (Clean (abs_path E (Dir l) (Listing.Root l) @ ''/'' @ Name fi), Name fi))
       (Directories l @ Files l)"
    by (simp add: links_def href_def template_dir_def)
  have 2: "IsAbs (href E l fi)"
    using IsAbs_Clean [OF q] by (simp add: href_def)
  have 3: "Clean (href E l fi) = href E l fi"
    using Clean_idem_rooted [OF q] by (simp add: href_def)
  have 4: "Dir l \<noteq> [] \<longrightarrow> href E (l\<lparr>Dir := Dir l @ replicate n (CHR ''/'')\<rparr>) fi = href E l fi"
    by (simp add: href_def template_dir_def abs_path_def Abs_trailing_many)
  from 1 2 3 4 show ?thesis by blast
qed

theorem href_normalized_witness:
  "Dir docs_listing \<noteq> []
   \<and> IsAbs (href example_env docs_listing (entry ''readme.txt'' False))
   \<and> Clean (href example_env docs_listing (entry ''readme.txt'' False)) =
       href example_env docs_listing (entry ''readme.txt'' False)
   \<and> href example_env (docs_listing\<lparr>Dir := Dir docs_listing @ replicate 2 (CHR ''/'')\<rparr>)
         (entry ''readme.txt'' False) =
       href example_env docs_listing (entry ''readme.txt'' False)"
proof -
  have h: "Dir docs_listing \<noteq> []"
    by (simp add: docs_listing_def)
  show ?thesis
    using h href_normalized [of example_env docs_listing "entry ''readme.txt'' False" 2]
    by blast
qed




section \<open>Following a link\<close>













text \<open>
  Under the root the link of a child can miss it as well, when the name does not
  pass through the link unchanged: the request path ends at a question mark, and a
  valid percent escape in the name is decoded. (A percent sign in the directory's
  path is already lost in \<^verbatim>\<open>abs\<close>, see claim C7.)
\<close>

lemma link_of_query_name:
  "link_request_path (href example_env docs_listing (entry ''q?x'' False)) = Some ''/docs/q''"
  by code_simp

lemma link_of_escape_name:
  "link_request_path (href example_env docs_listing (entry ''a%41b'' False)) = Some ''/docs/aAb''"
  by code_simp



end
